theory Spec2Isabelle
  imports Complex_Main "HOL-Library.List_Lexorder" "HOL-Library.Char_ord"
begin

section \<open>Charge snapshots\<close>

text \<open>
  The store of \<^verbatim>\<open>ChargeStore\<close> holds a charge snapshot delivered by the backend.
  Only the fields that the store reads are kept. A JavaScript object whose keys are
  data (\<^verbatim>\<open>addresses\<close>, \<^verbatim>\<open>pricing\<close>) is the list of its own properties;
  \<^verbatim>\<open>Object.keys\<close> is \<open>map fst\<close> and \<open>map_of\<close> finds an own property.
\<close>

type_synonym OrderCode = string
type_synonym Network = string
type_synonym Address = string
type_synonym TxId = string
type_synonym CryptoCurrency = string

record CryptoMoney =
  amount :: string
  currency :: CryptoCurrency

record Block =
  confirmations :: int
  confirmationsRequired :: int

record Payment =
  block :: Block

record TimelineEntry =
  status :: string

record Charge =
  code :: OrderCode
  pricingType :: string
  addresses :: "(Network \<times> Address) list"
  pricing :: "(string \<times> CryptoMoney) list"
  timeline :: "TimelineEntry list"
  payments :: "Payment list"
  expiresAt :: string
  cancelUrl :: "string option"

text \<open>
  \<^verbatim>\<open>isEqual\<close> of lodash: arrays and strings are compared in order, objects by
  their key sets and the values under each key, whatever the order of the keys.
\<close>

definition objectEqual :: "(string \<times> 'v) list \<Rightarrow> (string \<times> 'v) list \<Rightarrow> bool" where
  "objectEqual xs ys =
     list_all (\<lambda>k. map_of xs k = map_of ys k) (map fst xs @ map fst ys)"

definition isEqual :: "Charge \<Rightarrow> Charge \<Rightarrow> bool" where
  "isEqual a b =
     (code a = code b \<and> pricingType a = pricingType b
      \<and> objectEqual (addresses a) (addresses b)
      \<and> objectEqual (pricing a) (pricing b)
      \<and> timeline a = timeline b \<and> payments a = payments b
      \<and> expiresAt a = expiresAt b \<and> cancelUrl a = cancelUrl b)"

text \<open>
  Reading \<^verbatim>\<open>obj[key]\<close> on a plain object finds the object's own property, or else
  the property of that name that every plain object inherits from
  \<^verbatim>\<open>Object.prototype\<close> (a function, or for \<^verbatim>\<open>__proto__\<close> the prototype itself),
  or else \<^verbatim>\<open>undefined\<close>.
\<close>

definition objectPrototypeKeys :: "string list" where
  "objectPrototypeKeys =
     [''constructor'', ''hasOwnProperty'', ''isPrototypeOf'', ''propertyIsEnumerable'',
      ''toLocaleString'', ''toString'', ''valueOf'', ''__proto__'',
      ''__defineGetter__'', ''__defineSetter__'', ''__lookupGetter__'', ''__lookupSetter__'']"

datatype 'v property = Own 'v | Inherited | Missing

definition getProperty :: "(string \<times> 'v) list \<Rightarrow> string \<Rightarrow> 'v property" where
  "getProperty obj key =
     (case map_of obj key of
        Some v \<Rightarrow> Own v
      | None \<Rightarrow> if key \<in> set objectPrototypeKeys then Inherited else Missing)"

section \<open>Numbers and the lower send limits\<close>

text \<open>
  A JavaScript number is a double: not-a-number, an infinity, or a rational. Every
  comparison with NaN is false. \<^verbatim>\<open>Number(amount)\<close>, the reading of a decimal
  string, is a parameter \<open>toNumber\<close> of the functions that use it.
\<close>

datatype number = NaN | NegInfinity | Finite rat | PosInfinity

fun jsLess :: "number \<Rightarrow> number \<Rightarrow> bool" where
  "jsLess NaN _ = False"
| "jsLess _ NaN = False"
| "jsLess (Finite a) (Finite b) = (a < b)"
| "jsLess _ NegInfinity = False"
| "jsLess NegInfinity _ = True"
| "jsLess PosInfinity _ = False"
| "jsLess _ PosInfinity = True"

text \<open>
  The table of minimum amounts. Each entry is the double that the source's literal
  denotes (\<^verbatim>\<open>0.0001\<close>, \<^verbatim>\<open>0.00001\<close>, \<^verbatim>\<open>0.001\<close>), written as the rational it is.
\<close>

definition COINBASE_CRYPTO_LOWER_SEND_LIMIT :: "(CryptoCurrency \<times> number) list" where
  "COINBASE_CRYPTO_LOWER_SEND_LIMIT =
     [(''BTC'', Finite (7378697629483821 / 73786976294838206464)),
      (''BCH'', Finite (5902958103587057 / 590295810358705651712)),
      (''LTC'', Finite (1152921504606847 / 1152921504606846976)),
      (''ETH'', Finite (1152921504606847 / 1152921504606846976)),
      (''USDC'', Finite (1152921504606847 / 1152921504606846976)),
      (''BEER'', Finite (1152921504606847 / 1152921504606846976)),
      (''TST'', Finite (1152921504606847 / 1152921504606846976))]"

text \<open>
  \<^verbatim>\<open>Number(COINBASE_CRYPTO_LOWER_SEND_LIMIT[currency] || 0)\<close>. An entry of the
  table is a nonzero number, hence truthy, and \<^verbatim>\<open>Number\<close> returns it. An inherited
  property is a function or an object: truthy, and \<^verbatim>\<open>Number\<close> of it is NaN. A
  missing property is \<^verbatim>\<open>undefined\<close>, falsy, and the limit is 0.
\<close>

definition limitAmount :: "CryptoCurrency \<Rightarrow> number" where
  "limitAmount cur =
     (case getProperty COINBASE_CRYPTO_LOWER_SEND_LIMIT cur of
        Own v \<Rightarrow> v
      | Inherited \<Rightarrow> NaN
      | Missing \<Rightarrow> Finite 0)"

section \<open>The store\<close>

datatype ChargeStep =
    networkPicker
  | oauth
  | awaitingPayment
  | pendingPayment
  | waitingForConfirmations
  | successfulPayment
  | failedPayment
  | canceledPayment
  | processingCancellation
  | maintenance

datatype Web3Status =
    Idle
  | Asking
  | Declined CryptoCurrency
  | Submitted TxId
  | Mined TxId int
  | Canceled
  | Failed
  | Unsupported
  | WrongChain
  | NoAccount

datatype UpdateContext = poll | startup | cancel

text \<open>
  The calls the store makes on its collaborators, in the order it makes them: the
  tracking store, the widget store, the parent and the backend client.
\<close>

datatype Call =
    Track string
  | SendPaymentDetectedEvent OrderCode
  | SendSuccessfulChargeEvent OrderCode
  | SendFailedChargeEvent OrderCode
  | ReturnHome
  | GetChargeFromOrderCode OrderCode
  | CancelCharge OrderCode

text \<open>What a timer runs when it fires.\<close>

datatype TimerTask = EmptyCallback | PollCallback | TickCallback

text \<open>
  The observable fields and timer handles of the class, followed by what the store sees
  of its surroundings: the log of outgoing calls, the browser's live timers (handle,
  task, delay in ms) with the last handle given out, \<^verbatim>\<open>document.hidden\<close>,
  \<^verbatim>\<open>Date.now() / 1000\<close> and the imported constant
  \<^verbatim>\<open>IS_LOCAL_STORAGE_AVAILABLE\<close>. A field that the class leaves without an initial
  value is \<open>None\<close> until it is assigned. Timer handles are positive, hence truthy;
  \<open>None\<close> in a handle field is \<^verbatim>\<open>null\<close>. The collaborators \<^verbatim>\<open>parent\<close> and
  \<^verbatim>\<open>tracking\<close> are those installed by \<^verbatim>\<open>setCharge\<close>. The fields of the
  hosted payment path, the QR modal and the dollar amount are left out, with
  \<^verbatim>\<open>setCharge\<close>, the local store and the wallet request up to the transaction it
  sends: no action below reads or writes them.
\<close>

record ChargeStore =
  charge :: "Charge option"
  step :: "ChargeStep option"
  pickedNetwork :: "Network option"
  now :: rat
  web3Status :: Web3Status
  pollErrorStreak :: nat
  isChargeBelowCoinbaseLowerSendLimit :: "bool option"
  pollTimeoutId :: "nat option"
  expiryIntervalId :: "nat option"
  calls :: "Call list"
  timers :: "(nat \<times> TimerTask \<times> nat) list"
  lastTimerId :: nat
  documentHidden :: bool
  dateNow :: rat
  IS_LOCAL_STORAGE_AVAILABLE :: bool

text \<open>
  A JavaScript exception leaves the fields as they were when it was thrown, so a thrown
  outcome carries the store too.
\<close>

datatype exn = Error string | TypeError

datatype Outcome = Returned ChargeStore | Thrown exn ChargeStore

text \<open>A rejected backend request, as far as \<^verbatim>\<open>poll\<close> inspects it.\<close>

record ApiError =
  statusCode :: "nat option"
  errorType :: "string option"

subsection \<open>Collaborators and timers\<close>

definition emit :: "Call \<Rightarrow> ChargeStore \<Rightarrow> ChargeStore" where
  "emit c s = s\<lparr>calls := calls s @ [c]\<rparr>"

definition track :: "string \<Rightarrow> ChargeStore \<Rightarrow> ChargeStore" where
  "track name s = emit (Track name) s"

definition setTimeout :: "TimerTask \<Rightarrow> nat \<Rightarrow> ChargeStore \<Rightarrow> nat \<times> ChargeStore" where
  "setTimeout cb delay s =
     (let h = Suc (lastTimerId s)
      in (h, s\<lparr>timers := timers s @ [(h, cb, delay)], lastTimerId := h\<rparr>))"

definition setInterval :: "TimerTask \<Rightarrow> nat \<Rightarrow> ChargeStore \<Rightarrow> nat \<times> ChargeStore" where
  "setInterval cb delay s = setTimeout cb delay s"

definition clearTimeout :: "nat \<Rightarrow> ChargeStore \<Rightarrow> ChargeStore" where
  "clearTimeout h s = s\<lparr>timers := filter (\<lambda>t. fst t \<noteq> h) (timers s)\<rparr>"

definition clearInterval :: "nat \<Rightarrow> ChargeStore \<Rightarrow> ChargeStore" where
  "clearInterval h s = clearTimeout h s"

subsection \<open>Computed values\<close>

text \<open>
  The getters read \<^verbatim>\<open>this.charge\<close>; they are functions of the held charge, and an
  action that evaluates one without a charge throws a \<open>TypeError\<close>.
\<close>

definition shouldShowPayWithCoinbase :: "bool \<Rightarrow> Charge \<Rightarrow> bool" where
  "shouldShowPayWithCoinbase localStorage c =
     (pricingType c \<noteq> ''no_price'' \<and> localStorage)"

definition isUnpriced :: "Charge \<Rightarrow> bool" where
  "isUnpriced c = (pricingType c \<noteq> ''fixed_price'')"

definition networks :: "Charge \<Rightarrow> Network list" where
  "networks c = sort (map fst (addresses c))"

definition shouldSkipNetworkPicker :: "bool \<Rightarrow> Charge \<Rightarrow> bool" where
  "shouldSkipNetworkPicker localStorage c =
     (\<not> shouldShowPayWithCoinbase localStorage c \<and> length (networks c) = 1)"

definition activePayment :: "Charge \<Rightarrow> Payment option" where
  "activePayment c = (case payments c of [] \<Rightarrow> None | p # _ \<Rightarrow> Some p)"

definition chargeStatus :: "Charge \<Rightarrow> string option" where
  "chargeStatus c =
     (case timeline c of [] \<Rightarrow> None | _ # _ \<Rightarrow> Some (status (last (timeline c))))"

definition pollDelay :: "ChargeStore \<Rightarrow> nat" where
  "pollDelay s =
     (if step s = Some networkPicker \<or> step s = Some maintenance \<or> documentHidden s
      then 15000
      else if 10 < pollErrorStreak s then 10000
      else if 5 < pollErrorStreak s then 5000
      else 2000)"

subsection \<open>Polling\<close>

definition stopPolling :: "ChargeStore \<Rightarrow> ChargeStore" where
  "stopPolling s =
     (let s1 = (case pollTimeoutId s of
                  None \<Rightarrow> s
                | Some h \<Rightarrow> (clearTimeout h s)\<lparr>pollTimeoutId := None\<rparr>);
          s2 = (case expiryIntervalId s1 of
                  None \<Rightarrow> s1
                | Some h \<Rightarrow> (clearInterval h s1)\<lparr>expiryIntervalId := None\<rparr>)
      in s2\<lparr>pollErrorStreak := 0\<rparr>)"

text \<open>
  \<^verbatim>\<open>poll\<close> is asynchronous. \<open>pollBegin\<close> is its run up to the \<^verbatim>\<open>await\<close>, where
  the request to the backend has been issued; \<open>pollResolve\<close> is its run from the moment
  the request settles, with a charge (\<open>Inr\<close>) or with a rejection (\<open>Inl\<close>), on the store
  as it is at that moment.
\<close>

definition pollBegin :: "bool \<Rightarrow> ChargeStore \<Rightarrow> ChargeStore" where
  "pollBegin isInitial s =
     (case charge s of
        None \<Rightarrow> s
      | Some c \<Rightarrow>
          if pollTimeoutId s \<noteq> None \<and> isInitial then s
          else (let (h, s1) = setTimeout EmptyCallback 0 s
                in emit (GetChargeFromOrderCode (code c)) (s1\<lparr>pollTimeoutId := Some h\<rparr>)))"

text \<open>\<^verbatim>\<open>this.pollTimeoutId = setTimeout(this.poll, this.pollDelay)\<close>\<close>

definition scheduleNextPoll :: "ChargeStore \<Rightarrow> ChargeStore" where
  "scheduleNextPoll s =
     (let (h, s1) = setTimeout PollCallback (pollDelay s) s
      in s1\<lparr>pollTimeoutId := Some h\<rparr>)"

definition startPolling :: "ChargeStore \<Rightarrow> ChargeStore" where
  "startPolling s =
     (let s1 = stopPolling s;
          s2 = pollBegin True s1;
          s3 = s2\<lparr>now := dateNow s2\<rparr>;
          (h, s4) = setInterval TickCallback 1000 s3
      in s4\<lparr>expiryIntervalId := Some h\<rparr>)"

subsection \<open>Showing a step\<close>

definition showAwaitingPayment :: "Network option \<Rightarrow> ChargeStore \<Rightarrow> ChargeStore" where
  "showAwaitingPayment network s =
     startPolling
       ((track ''checkout:awaiting-payment-shown'' (s\<lparr>pickedNetwork := network\<rparr>))
          \<lparr>step := Some awaitingPayment\<rparr>)"

text \<open>
  \<^verbatim>\<open>this.networks[0]\<close> is \<^verbatim>\<open>undefined\<close> on an empty array; the branch that reads
  it runs only when there is exactly one network.
\<close>

definition showNetworkPicker :: "ChargeStore \<Rightarrow> Outcome" where
  "showNetworkPicker s =
     (let s1 = s\<lparr>pickedNetwork := None\<rparr>
      in case charge s1 of
           None \<Rightarrow> Thrown TypeError s1
         | Some c \<Rightarrow>
             if shouldSkipNetworkPicker (IS_LOCAL_STORAGE_AVAILABLE s1) c
             then Returned (showAwaitingPayment
                              (case networks c of [] \<Rightarrow> None | n # _ \<Rightarrow> Some n) s1)
             else Returned (s1\<lparr>step := Some networkPicker\<rparr>))"

definition showOAuthScreen :: "ChargeStore \<Rightarrow> ChargeStore" where
  "showOAuthScreen s = s\<lparr>step := Some oauth\<rparr>"

definition showPendingPayment :: "ChargeStore \<Rightarrow> Outcome" where
  "showPendingPayment s =
     (let s1 = (track ''checkout:payment-detected'' s)\<lparr>step := Some pendingPayment\<rparr>
      in case charge s1 of
           None \<Rightarrow> Thrown TypeError s1
         | Some c \<Rightarrow> Returned (emit (SendPaymentDetectedEvent (code c)) s1))"

definition showWaitingForConfirmations :: "ChargeStore \<Rightarrow> ChargeStore" where
  "showWaitingForConfirmations s =
     (track ''checkout:payment-waiting-for-confirmations'' s)
       \<lparr>step := Some waitingForConfirmations\<rparr>"

definition showSuccessfulPayment :: "ChargeStore \<Rightarrow> Outcome" where
  "showSuccessfulPayment s =
     (let s1 = stopPolling
                 ((track ''checkout:payment-completed'' s)\<lparr>step := Some successfulPayment\<rparr>)
      in case charge s1 of
           None \<Rightarrow> Thrown TypeError s1
         | Some c \<Rightarrow> Returned (emit (SendSuccessfulChargeEvent (code c)) s1))"

definition showFailedPayment :: "ChargeStore \<Rightarrow> Outcome" where
  "showFailedPayment s =
     (let s1 = track ''checkout:payment-failed'' s
      in case charge s1 of
           None \<Rightarrow> Thrown TypeError s1
         | Some c \<Rightarrow>
             Returned (stopPolling
                         ((emit (SendFailedChargeEvent (code c)) s1)
                            \<lparr>step := Some failedPayment\<rparr>)))"

definition showCanceledPayment :: "ChargeStore \<Rightarrow> Outcome" where
  "showCanceledPayment s =
     (let s1 = track ''checkout:payment-canceled'' s
      in case charge s1 of
           None \<Rightarrow> Thrown TypeError s1
         | Some c \<Rightarrow>
             Returned (stopPolling
                         ((emit (SendFailedChargeEvent (code c)) s1)
                            \<lparr>step := Some canceledPayment\<rparr>)))"

definition showMaintenanceMode :: "ChargeStore \<Rightarrow> ChargeStore" where
  "showMaintenanceMode s = s\<lparr>step := Some maintenance\<rparr>"

subsection \<open>Charge updates\<close>

definition processPendingPayment :: "ChargeStore \<Rightarrow> Outcome" where
  "processPendingPayment s =
     (case charge s of
        None \<Rightarrow> Thrown TypeError s
      | Some c \<Rightarrow>
          (case activePayment c of
             None \<Rightarrow> Returned s
           | Some payment \<Rightarrow>
               if confirmationsRequired (block payment) \<le> confirmations (block payment)
               then showSuccessfulPayment s
               else if confirmations (block payment) = 0
               then showPendingPayment s
               else Returned (showWaitingForConfirmations s)))"

text \<open>\<^verbatim>\<open>context === 'poll' && isEqual(toJS(this.charge), charge)\<close>\<close>

definition sameAsLastPoll :: "UpdateContext \<Rightarrow> Charge \<Rightarrow> ChargeStore \<Rightarrow> bool" where
  "sameAsLastPoll ctx c s =
     (ctx = poll \<and> (case charge s of None \<Rightarrow> False | Some held \<Rightarrow> isEqual held c))"

definition processChargeUpdate :: "Charge \<Rightarrow> UpdateContext \<Rightarrow> ChargeStore \<Rightarrow> Outcome" where
  "processChargeUpdate c ctx s =
     (if sameAsLastPoll ctx c s then Returned s
      else (let s1 = s\<lparr>charge := Some c\<rparr>;
                st = chargeStatus c
            in if st = Some ''NEW'' then Returned s1
               else if st = Some ''PENDING''
               then (if isUnpriced c then showSuccessfulPayment s1
                     else processPendingPayment s1)
               else if st = Some ''COMPLETED'' then showSuccessfulPayment s1
               else if st = Some ''RESOLVED'' then showSuccessfulPayment s1
               else if st = Some ''UNRESOLVED'' then showFailedPayment s1
               else if st = Some ''EXPIRED'' then showFailedPayment s1
               else if st = Some ''CANCELED'' then showCanceledPayment s1
               else Returned s1))"

text \<open>
  The \<^verbatim>\<open>catch\<close> block of \<^verbatim>\<open>poll\<close>. It also receives what the \<^verbatim>\<open>try\<close> block
  throws after the request has settled; such an exception has neither a status code nor
  a type.
\<close>

definition pollCatch :: "ApiError \<Rightarrow> ChargeStore \<Rightarrow> ChargeStore" where
  "pollCatch e s =
     (if pollTimeoutId s = None then s
      else scheduleNextPoll
             (if statusCode e = Some 503 \<and> errorType e = Some ''maintenance''
              then showMaintenanceMode s
              else s\<lparr>pollErrorStreak := Suc (pollErrorStreak s)\<rparr>))"

definition pollResolve :: "ApiError + Charge \<Rightarrow> ChargeStore \<Rightarrow> ChargeStore" where
  "pollResolve r s =
     (case r of
        Inl e \<Rightarrow> pollCatch e s
      | Inr c \<Rightarrow>
          if pollTimeoutId s = None then s
          else (case processChargeUpdate c poll (s\<lparr>pollErrorStreak := 0\<rparr>) of
                  Returned s1 \<Rightarrow> scheduleNextPoll s1
                | Thrown x s1 \<Rightarrow> pollCatch \<lparr>statusCode = None, errorType = None\<rparr> s1))"

subsection \<open>Navigation\<close>

text \<open>The step as \<^verbatim>\<open>"can't go back from " + this.step\<close> prints it.\<close>

fun stepName :: "ChargeStep option \<Rightarrow> string" where
  "stepName None = ''undefined''"
| "stepName (Some networkPicker) = ''networkPicker''"
| "stepName (Some oauth) = ''oauth''"
| "stepName (Some awaitingPayment) = ''awaitingPayment''"
| "stepName (Some pendingPayment) = ''pendingPayment''"
| "stepName (Some waitingForConfirmations) = ''waitingForConfirmations''"
| "stepName (Some successfulPayment) = ''successfulPayment''"
| "stepName (Some failedPayment) = ''failedPayment''"
| "stepName (Some canceledPayment) = ''canceledPayment''"
| "stepName (Some processingCancellation) = ''processingCancellation''"
| "stepName (Some maintenance) = ''maintenance''"

definition returnHome :: "ChargeStore \<Rightarrow> ChargeStore" where
  "returnHome s = emit ReturnHome s"

definition cantGoBack :: "ChargeStore \<Rightarrow> Outcome" where
  "cantGoBack s = Thrown (Error (''can't go back from '' @ stepName (step s))) s"

definition goBack :: "ChargeStore \<Rightarrow> Outcome" where
  "goBack s =
     (case step s of
        Some awaitingPayment \<Rightarrow>
          (case charge s of
             None \<Rightarrow> Thrown TypeError s
           | Some c \<Rightarrow>
               if shouldSkipNetworkPicker (IS_LOCAL_STORAGE_AVAILABLE s) c
               then Returned (returnHome (stopPolling s))
               else showNetworkPicker s)
      | Some networkPicker \<Rightarrow> Returned (returnHome (stopPolling s))
      | Some successfulPayment \<Rightarrow> Returned (returnHome (stopPolling s))
      | Some failedPayment \<Rightarrow> Returned (returnHome (stopPolling s))
      | Some canceledPayment \<Rightarrow> Returned (returnHome (stopPolling s))
      | Some pendingPayment \<Rightarrow> cantGoBack s
      | Some waitingForConfirmations \<Rightarrow> cantGoBack s
      | Some processingCancellation \<Rightarrow> cantGoBack s
      | _ \<Rightarrow> cantGoBack s)"

definition pickNetwork :: "Network \<Rightarrow> ChargeStore \<Rightarrow> ChargeStore" where
  "pickNetwork network s =
     showAwaitingPayment (Some network) (track ''checkout:currency-picked'' s)"

definition payWithCoinbase :: "ChargeStore \<Rightarrow> ChargeStore" where
  "payWithCoinbase s = showOAuthScreen (stopPolling s)"

subsection \<open>Cancellation\<close>

text \<open>
  \<^verbatim>\<open>cancelCharge\<close> is asynchronous. \<open>cancelChargeBegin\<close> is its run up to the
  \<^verbatim>\<open>await\<close>, for a store that holds a charge: its last act is the request to the
  backend. \<open>cancelChargeResolve\<close> is its run from the moment the request settles, on
  the store as it is at that moment, with the value the promise then delivers.
  \<open>cancelCharge\<close> is the whole call when nothing else runs in between.
\<close>

definition cancelChargeBegin :: "Charge \<Rightarrow> ChargeStore \<Rightarrow> ChargeStore" where
  "cancelChargeBegin c s =
     emit (CancelCharge (code c))
       (stopPolling
          ((track ''checkout:payment-canceled'' s)\<lparr>step := Some processingCancellation\<rparr>))"

definition cancelChargeResolve ::
    "ApiError + Charge \<Rightarrow> ChargeStore \<Rightarrow> ChargeStore \<times> (exn + string option)" where
  "cancelChargeResolve r s =
     (let s1 = (case r of
                  Inl err \<Rightarrow> s
                | Inr c \<Rightarrow>
                    (case processChargeUpdate c cancel s of
                       Returned s' \<Rightarrow> s'
                     | Thrown x s' \<Rightarrow> s'))
      in (s1, case charge s1 of
                None \<Rightarrow> Inl TypeError
              | Some held \<Rightarrow> Inr (cancelUrl held)))"

definition cancelCharge ::
    "ApiError + Charge \<Rightarrow> ChargeStore \<Rightarrow> ChargeStore \<times> (exn + string option)" where
  "cancelCharge r s =
     (case charge s of
        None \<Rightarrow> (s, Inr None)
      | Some c \<Rightarrow> cancelChargeResolve r (cancelChargeBegin c s))"

subsection \<open>The lower send limit\<close>

text \<open>
  The loop over \<^verbatim>\<open>charge.addresses\<close>. It destructures
  \<^verbatim>\<open>charge.pricing[key]\<close> into \<^verbatim>\<open>amount\<close> and \<^verbatim>\<open>currency\<close>. A missing
  price is \<^verbatim>\<open>undefined\<close> and the destructuring throws (\<open>None\<close>). An inherited
  property has neither field: its amount reads as \<^verbatim>\<open>Number(undefined)\<close>, which is
  NaN, and its currency as the table key \<^verbatim>\<open>undefined\<close>. The loop collects the
  currencies priced below their limit (\<open>None\<close> in the list is \<^verbatim>\<open>undefined\<close>).
\<close>

fun invalidCurrencies ::
    "(string \<Rightarrow> number) \<Rightarrow> (string \<times> CryptoMoney) list \<Rightarrow> Network list
       \<Rightarrow> CryptoCurrency option list \<Rightarrow> CryptoCurrency option list option" where
  "invalidCurrencies toNumber prices [] acc = Some acc"
| "invalidCurrencies toNumber prices (key # keys) acc =
     (case getProperty prices key of
        Missing \<Rightarrow> None
      | Inherited \<Rightarrow>
          invalidCurrencies toNumber prices keys
            (if jsLess NaN (limitAmount ''undefined'') then acc @ [None] else acc)
      | Own price \<Rightarrow>
          invalidCurrencies toNumber prices keys
            (if jsLess (toNumber (amount price)) (limitAmount (currency price))
             then acc @ [Some (currency price)]
             else acc))"

definition setIsChargeBelowCoinbaseLowerSendLimit ::
    "(string \<Rightarrow> number) \<Rightarrow> ChargeStore \<Rightarrow> Outcome" where
  "setIsChargeBelowCoinbaseLowerSendLimit toNumber s =
     (case charge s of
        None \<Rightarrow> Thrown TypeError s
      | Some c \<Rightarrow>
          if isUnpriced c then Returned s
          else (case invalidCurrencies toNumber (pricing c) (map fst (addresses c)) [] of
                  None \<Rightarrow> Thrown TypeError s
                | Some invalid \<Rightarrow>
                    Returned (s\<lparr>isChargeBelowCoinbaseLowerSendLimit :=
                                   Some (length invalid = length (map fst (addresses c)))\<rparr>)))"

subsection \<open>Events of a submitted wallet transaction\<close>

text \<open>
  The handlers that \<^verbatim>\<open>requestWeb3\<close> registers on the transaction it has sent;
  \<open>currency\<close> is the currency of the request. The payload of \<^verbatim>\<open>transactionHash\<close> is
  a string or nothing; it is falsy when it is absent or empty.
\<close>

definition onTransactionHash ::
    "CryptoCurrency \<Rightarrow> TxId option \<Rightarrow> ChargeStore \<Rightarrow> ChargeStore" where
  "onTransactionHash cur txId s =
     (case txId of
        None \<Rightarrow> s\<lparr>web3Status := Declined cur\<rparr>
      | Some t \<Rightarrow>
          if t = [] then s\<lparr>web3Status := Declined cur\<rparr>
          else s\<lparr>web3Status := Submitted t\<rparr>)"

text \<open>The receipt's \<^verbatim>\<open>status === false\<close> is the argument \<open>statusIsFalse\<close>.\<close>

definition onReceipt :: "bool \<Rightarrow> ChargeStore \<Rightarrow> ChargeStore" where
  "onReceipt statusIsFalse s =
     (if statusIsFalse then s\<lparr>web3Status := Failed\<rparr>
      else (case web3Status s of
              Submitted t \<Rightarrow> s\<lparr>web3Status := Mined t 0\<rparr>
            | _ \<Rightarrow> s))"

definition onConfirmation :: "int \<Rightarrow> TxId \<Rightarrow> ChargeStore \<Rightarrow> ChargeStore" where
  "onConfirmation n txId s =
     (case web3Status s of
        Declined _ \<Rightarrow> s
      | _ \<Rightarrow> s\<lparr>web3Status := Mined txId n\<rparr>)"

definition onError :: "CryptoCurrency \<Rightarrow> ChargeStore \<Rightarrow> ChargeStore" where
  "onError cur s = s\<lparr>web3Status := Declined cur\<rparr>"

definition cancelWeb3 :: "ChargeStore \<Rightarrow> ChargeStore" where
  "cancelWeb3 s = s\<lparr>web3Status := Canceled\<rparr>"

section \<open>Vocabulary of the properties\<close>

text \<open>An action returns, and the store it leaves satisfies \<open>P\<close>.\<close>

definition returnsWith :: "Outcome \<Rightarrow> (ChargeStore \<Rightarrow> bool) \<Rightarrow> bool" where
  "returnsWith out P = (case out of Returned s' \<Rightarrow> P s' | Thrown x s' \<Rightarrow> False)"

text \<open>The store an action leaves, whether it returned or threw.\<close>

definition storeOf :: "Outcome \<Rightarrow> ChargeStore" where
  "storeOf out = (case out of Returned s' \<Rightarrow> s' | Thrown x s' \<Rightarrow> s')"

text \<open>A handle names a timer that the browser still holds.\<close>

definition handleLive :: "nat option \<Rightarrow> ChargeStore \<Rightarrow> bool" where
  "handleLive h s = (case h of None \<Rightarrow> False | Some n \<Rightarrow> n \<in> set (map fst (timers s)))"

text \<open>
  Polling is stopped in \<open>s'\<close>: both handle fields are \<^verbatim>\<open>null\<close>, and the poll timer
  and the tick timer that \<open>s\<close> had are gone from the browser.
\<close>

definition pollingStopped :: "ChargeStore \<Rightarrow> ChargeStore \<Rightarrow> bool" where
  "pollingStopped s s' =
     (pollTimeoutId s' = None \<and> expiryIntervalId s' = None
      \<and> \<not> handleLive (pollTimeoutId s) s' \<and> \<not> handleLive (expiryIntervalId s) s')"

text \<open>
  The action leaves the flow: it returns with polling stopped, its one outgoing call is
  the parent's \<^verbatim>\<open>returnHome\<close>, and the step stays as it was.
\<close>

definition exitsFlow :: "ChargeStore \<Rightarrow> Outcome \<Rightarrow> bool" where
  "exitsFlow s out =
     returnsWith out
       (\<lambda>s'. pollingStopped s s' \<and> calls s' = calls s @ [ReturnHome] \<and> step s' = step s)"

text \<open>
  The price of the charge on network \<open>key\<close> is strictly below the minimum of its
  currency; and every network of the charge has a price to destructure.
\<close>

definition pricedBelowMinimum :: "(string \<Rightarrow> number) \<Rightarrow> Charge \<Rightarrow> Network \<Rightarrow> bool" where
  "pricedBelowMinimum toNumber c key =
     (case getProperty (pricing c) key of
        Own price \<Rightarrow> jsLess (toNumber (amount price)) (limitAmount (currency price))
      | Inherited \<Rightarrow> False
      | Missing \<Rightarrow> False)"

definition allPriced :: "Charge \<Rightarrow> bool" where
  "allPriced c =
     list_all (\<lambda>key. getProperty (pricing c) key \<noteq> Missing) (map fst (addresses c))"

subsection \<open>Example data\<close>

text \<open>
  A fixed-price charge on two networks that nobody has paid yet, and a store that holds
  a charge at a step while polling runs (timer 1 is the poll in flight, timer 2 the
  tick). \<open>exampleNumber\<close> is \<^verbatim>\<open>Number\<close> on the amounts of the example charge.
\<close>

definition exampleCharge :: Charge where
  "exampleCharge =
     \<lparr>code = ''ABC123'', pricingType = ''fixed_price'',
      addresses = [(''bitcoin'', ''1btc''), (''ethereum'', ''0xeth'')],
      pricing = [(''local'', \<lparr>amount = ''5.00'', currency = ''USD''\<rparr>),
                 (''bitcoin'', \<lparr>amount = ''0.00005'', currency = ''BTC''\<rparr>),
                 (''ethereum'', \<lparr>amount = ''0.01'', currency = ''ETH''\<rparr>)],
      timeline = [\<lparr>status = ''NEW''\<rparr>], payments = [],
      expiresAt = ''2019-06-01T12:00:00Z'',
      cancelUrl = Some ''https://merchant.example/cancel''\<rparr>"

definition withStatus :: "string \<Rightarrow> Charge \<Rightarrow> Charge" where
  "withStatus st c = c\<lparr>timeline := timeline c @ [\<lparr>status = st\<rparr>]\<rparr>"

definition withPayment :: "int \<Rightarrow> int \<Rightarrow> Charge \<Rightarrow> Charge" where
  "withPayment n required c =
     c\<lparr>payments := [\<lparr>block = \<lparr>confirmations = n, confirmationsRequired = required\<rparr>\<rparr>]\<rparr>"

definition exampleStore :: "Charge \<Rightarrow> ChargeStep \<Rightarrow> ChargeStore" where
  "exampleStore c st =
     \<lparr>charge = Some c, step = Some st, pickedNetwork = Some ''bitcoin'', now = 0,
      web3Status = Idle, pollErrorStreak = 0, isChargeBelowCoinbaseLowerSendLimit = None,
      pollTimeoutId = Some 1, expiryIntervalId = Some 2, calls = [],
      timers = [(1, EmptyCallback, 0), (2, TickCallback, 1000)], lastTimerId = 2,
      documentHidden = False, dateNow = 0, IS_LOCAL_STORAGE_AVAILABLE = True\<rparr>"

definition exampleNumber :: "string \<Rightarrow> number" where
  "exampleNumber a =
     (if a = ''0.00005'' then Finite (7378697629483821 / 147573952589676412928)
      else if a = ''0.01'' then Finite (5764607523034235 / 576460752303423488)
      else if a = ''5.00'' then Finite 5
      else if a = ''-1'' then Finite (- 1)
      else NaN)"

text \<open>The same charge as a donation, and the example store waiting for its payment.\<close>

definition exampleDonation :: Charge where
  "exampleDonation = exampleCharge\<lparr>pricingType := ''no_price''\<rparr>"

definition waitingStore :: ChargeStore where
  "waitingStore = exampleStore exampleCharge awaitingPayment"

text \<open>The example charge payable in bitcoin only, at 0.00005 BTC.\<close>

definition exampleBitcoinOnly :: Charge where
  "exampleBitcoinOnly = exampleCharge\<lparr>addresses := [(''bitcoin'', ''1btc'')]\<rparr>"

text \<open>
  The example store on the network picker, its first fetch in flight, after the user has
  picked bitcoin.
\<close>

definition restartedStore :: ChargeStore where
  "restartedStore = pickNetwork ''bitcoin'' (exampleStore exampleCharge networkPicker)"

lemmas example_defs =
  exampleCharge_def withStatus_def withPayment_def exampleStore_def exampleDonation_def
  waitingStore_def exampleBitcoinOnly_def

section \<open>Basic facts\<close>

lemma returnsWith_Returned [simp]: "returnsWith (Returned s) P = P s"
  by (simp add: returnsWith_def)

lemma returnsWith_Thrown [simp]: "returnsWith (Thrown x s) P = False"
  by (simp add: returnsWith_def)



lemma objectEqual_refl: "objectEqual xs xs"
  by (simp add: objectEqual_def list_all_iff)

lemma isEqual_refl: "isEqual c c"
  by (simp add: isEqual_def objectEqual_refl)

lemma stopPolling_timers:
  "timers (stopPolling s) =
     filter (\<lambda>t. Some (fst t) \<noteq> pollTimeoutId s \<and> Some (fst t) \<noteq> expiryIntervalId s) (timers s)"
  by (auto simp add: stopPolling_def Let_def clearTimeout_def clearInterval_def
           split: option.splits intro: filter_cong)

lemma stopPolling_fields [simp]:
  "pollTimeoutId (stopPolling s) = None"
  "expiryIntervalId (stopPolling s) = None"
  "pollErrorStreak (stopPolling s) = 0"
  "step (stopPolling s) = step s"
  "charge (stopPolling s) = charge s"
  "calls (stopPolling s) = calls s"
  "pickedNetwork (stopPolling s) = pickedNetwork s"
  by (simp_all add: stopPolling_def Let_def clearTimeout_def clearInterval_def
           split: option.splits)

lemma stopPolling_not_live:
  "\<not> handleLive (pollTimeoutId s) (stopPolling s)"
  "\<not> handleLive (expiryIntervalId s) (stopPolling s)"
  by (auto simp add: handleLive_def stopPolling_timers split: option.splits)

lemma emit_fields [simp]:
  "pollTimeoutId (emit c s) = pollTimeoutId s"
  "expiryIntervalId (emit c s) = expiryIntervalId s"
  "step (emit c s) = step s"
  "charge (emit c s) = charge s"
  "timers (emit c s) = timers s"
  "calls (emit c s) = calls s @ [c]"
  by (simp_all add: emit_def)

lemma track_fields [simp]:
  "pollTimeoutId (track n s) = pollTimeoutId s"
  "expiryIntervalId (track n s) = expiryIntervalId s"
  "step (track n s) = step s"
  "charge (track n s) = charge s"
  "timers (track n s) = timers s"
  "calls (track n s) = calls s @ [Track n]"
  by (simp_all add: track_def)

lemma handleLive_emit [simp]: "handleLive h (emit c s) = handleLive h s"
  by (cases h) (simp_all add: handleLive_def)

lemma pollingStopped_charge_upd [simp]:
  "pollingStopped (s\<lparr>charge := x\<rparr>) s' = pollingStopped s s'"
  by (simp add: pollingStopped_def)






text \<open>After an update, whatever its context, the store holds the snapshot it was given.\<close>

lemma processChargeUpdate_holds:
  "sameAsLastPoll poll c (storeOf (processChargeUpdate c ctx s))"
proof (cases "sameAsLastPoll ctx c s")
  case True
  then show ?thesis by (simp add: processChargeUpdate_def storeOf_def sameAsLastPoll_def)
next
  case False
  have "charge (storeOf (processChargeUpdate c ctx s)) = Some c"
    using False
    by (simp add: processChargeUpdate_def Let_def storeOf_def processPendingPayment_def
          showSuccessfulPayment_def showFailedPayment_def showCanceledPayment_def
          showPendingPayment_def showWaitingForConfirmations_def
          split: option.splits)
  then show ?thesis by (simp add: sameAsLastPoll_def isEqual_refl)
qed

lemma processChargeUpdate_cancel_charge:
  "charge (storeOf (processChargeUpdate c cancel s)) = Some c"
  by (simp add: processChargeUpdate_def Let_def storeOf_def processPendingPayment_def
          showSuccessfulPayment_def showFailedPayment_def showCanceledPayment_def
          showPendingPayment_def showWaitingForConfirmations_def sameAsLastPoll_def
          split: option.splits)

text \<open>An update never throws: the charge it reads is the one it has just stored.\<close>

lemma processChargeUpdate_returns:
  "processChargeUpdate c ctx s = Returned (storeOf (processChargeUpdate c ctx s))"
  by (simp add: processChargeUpdate_def Let_def storeOf_def processPendingPayment_def
          showSuccessfulPayment_def showFailedPayment_def showCanceledPayment_def
          showPendingPayment_def showWaitingForConfirmations_def
          split: option.splits)

section \<open>Charge updates by status\<close>




text \<open>
  The store of that counterexample arises from the actions of the class: the waiting
  store learns at startup that its charge is COMPLETED and shows the success screen; the
  user picks a network there, which shows \<open>awaitingPayment\<close> and starts polling; the
  first fetch then delivers the same COMPLETED snapshot, and the step stays
  \<open>awaitingPayment\<close> with the next poll scheduled.
\<close>

lemma completed_charge_polled_again:
  "step (storeOf (processChargeUpdate (withStatus ''COMPLETED'' exampleCharge) startup
                    waitingStore))
     = Some successfulPayment
   \<and> step (pollResolve (Inr (withStatus ''COMPLETED'' exampleCharge))
             (pickNetwork ''bitcoin''
                (storeOf (processChargeUpdate (withStatus ''COMPLETED'' exampleCharge) startup
                            waitingStore))))
     = Some awaitingPayment
   \<and> pollTimeoutId (pollResolve (Inr (withStatus ''COMPLETED'' exampleCharge))
             (pickNetwork ''bitcoin''
                (storeOf (processChargeUpdate (withStatus ''COMPLETED'' exampleCharge) startup
                            waitingStore))))
     = Some 5"
  by (simp add: example_defs chargeStatus_def processChargeUpdate_def sameAsLastPoll_def
        isEqual_def objectEqual_def showSuccessfulPayment_def stopPolling_def
        clearTimeout_def clearInterval_def track_def emit_def storeOf_def Let_def
        pickNetwork_def showAwaitingPayment_def startPolling_def pollBegin_def
        setTimeout_def setInterval_def pollResolve_def scheduleNextPoll_def)

text \<open>
  What the statement leaves out. A poll delivers the COMPLETED charge to the waiting
  store: the update shows the success screen and stops polling, and \<^verbatim>\<open>poll\<close> then
  assigns a new timeout all the same, so the next poll is scheduled while the tick timer
  stays cleared.
\<close>

lemma poll_scheduled_after_terminal_step:
  "step (pollResolve (Inr (withStatus ''COMPLETED'' exampleCharge)) waitingStore)
     = Some successfulPayment
   \<and> pollTimeoutId (pollResolve (Inr (withStatus ''COMPLETED'' exampleCharge)) waitingStore)
     = Some 3
   \<and> expiryIntervalId (pollResolve (Inr (withStatus ''COMPLETED'' exampleCharge)) waitingStore)
     = None
   \<and> timers (pollResolve (Inr (withStatus ''COMPLETED'' exampleCharge)) waitingStore)
     = [(3, PollCallback, 2000)]"
  by (simp add: example_defs chargeStatus_def processChargeUpdate_def sameAsLastPoll_def
        isEqual_def showSuccessfulPayment_def stopPolling_def clearTimeout_def
        clearInterval_def track_def emit_def Let_def setTimeout_def pollResolve_def
        scheduleNextPoll_def pollDelay_def)




text \<open>
  What the statement leaves out. With two payments listed, the first entry decides and
  the last is not looked at: 0 of 6 followed by 6 of 6 shows \<open>pendingPayment\<close>, and
  6 of 6 followed by 0 of 6 shows \<open>successfulPayment\<close>. The current status, by
  contrast, is read from the last entry of the timeline.
\<close>

lemma first_payment_decides:
  "returnsWith
     (processChargeUpdate
        ((withStatus ''PENDING'' exampleCharge)
           \<lparr>payments := [\<lparr>block = \<lparr>confirmations = 0, confirmationsRequired = 6\<rparr>\<rparr>,
                         \<lparr>block = \<lparr>confirmations = 6, confirmationsRequired = 6\<rparr>\<rparr>]\<rparr>)
        poll waitingStore)
     (\<lambda>s'. step s' = Some pendingPayment)"
  "returnsWith
     (processChargeUpdate
        ((withStatus ''PENDING'' exampleCharge)
           \<lparr>payments := [\<lparr>block = \<lparr>confirmations = 6, confirmationsRequired = 6\<rparr>\<rparr>,
                         \<lparr>block = \<lparr>confirmations = 0, confirmationsRequired = 6\<rparr>\<rparr>]\<rparr>)
        poll waitingStore)
     (\<lambda>s'. step s' = Some successfulPayment)"
  by (simp_all add: example_defs chargeStatus_def isUnpriced_def processChargeUpdate_def
        sameAsLastPoll_def isEqual_def processPendingPayment_def activePayment_def
        showPendingPayment_def showSuccessfulPayment_def Let_def)

text \<open>
  Claim C10. For a priced charge whose status is PENDING and whose payments are empty,
  \<open>processChargeUpdate\<close> returns a store that differs from the one before at most in
  the held charge: the step is unchanged and no call is made (no tracking event), and
  the store then holds the snapshot up to deep equality. The held charge is replaced
  by the snapshot, except that a poll delivering a snapshot deeply equal to the held
  charge keeps the held one.
\<close>

theorem pending_without_payment_keeps_step:
  "\<not> isUnpriced c \<Longrightarrow> chargeStatus c = Some ''PENDING'' \<Longrightarrow> payments c = [] \<Longrightarrow>
     processChargeUpdate c ctx s =
       Returned (if sameAsLastPoll ctx c s then s else s\<lparr>charge := Some c\<rparr>)
     \<and> returnsWith (processChargeUpdate c ctx s)
         (\<lambda>s'. step s' = step s \<and> calls s' = calls s \<and> sameAsLastPoll poll c s')"
proof -
  assume priced: "\<not> isUnpriced c" and pending: "chargeStatus c = Some ''PENDING''"
    and none: "payments c = []"
  have run: "processChargeUpdate c ctx s =
       Returned (if sameAsLastPoll ctx c s then s else s\<lparr>charge := Some c\<rparr>)"
    using priced pending none
    by (simp add: processChargeUpdate_def Let_def processPendingPayment_def activePayment_def)
  have "sameAsLastPoll ctx c s \<Longrightarrow> sameAsLastPoll poll c s"
    by (simp add: sameAsLastPoll_def)
  then have "returnsWith (processChargeUpdate c ctx s)
         (\<lambda>s'. step s' = step s \<and> calls s' = calls s \<and> sameAsLastPoll poll c s')"
    unfolding run by (simp add: sameAsLastPoll_def isEqual_refl)
  with run show ?thesis by (rule conjI)
qed

text \<open>The waiting store is told that the priced example charge is PENDING, with no payment.\<close>

theorem pending_without_payment_keeps_step_witness:
  "\<not> isUnpriced (withStatus ''PENDING'' exampleCharge)
   \<and> chargeStatus (withStatus ''PENDING'' exampleCharge) = Some ''PENDING''
   \<and> payments (withStatus ''PENDING'' exampleCharge) = []
   \<and> processChargeUpdate (withStatus ''PENDING'' exampleCharge) poll waitingStore
       = Returned (exampleStore (withStatus ''PENDING'' exampleCharge) awaitingPayment)
   \<and> step (exampleStore (withStatus ''PENDING'' exampleCharge) awaitingPayment)
       = Some awaitingPayment
   \<and> calls (exampleStore (withStatus ''PENDING'' exampleCharge) awaitingPayment) = []"
proof -
  have priced: "\<not> isUnpriced (withStatus ''PENDING'' exampleCharge)"
    by (simp add: example_defs isUnpriced_def)
  have pending: "chargeStatus (withStatus ''PENDING'' exampleCharge) = Some ''PENDING''"
    by (simp add: example_defs chargeStatus_def)
  have none: "payments (withStatus ''PENDING'' exampleCharge) = []"
    by (simp add: example_defs)
  have fresh: "\<not> sameAsLastPoll poll (withStatus ''PENDING'' exampleCharge) waitingStore"
    by (simp add: example_defs sameAsLastPoll_def isEqual_def)
  have after: "waitingStore\<lparr>charge := Some (withStatus ''PENDING'' exampleCharge)\<rparr>
                 = exampleStore (withStatus ''PENDING'' exampleCharge) awaitingPayment"
    by (simp add: exampleStore_def waitingStore_def)
  show ?thesis
    using pending_without_payment_keeps_step [OF priced pending none, of poll waitingStore]
      priced pending none fresh after
    by (simp add: exampleStore_def)
qed

section \<open>Repeated and late poll results\<close>

text \<open>
  Claim C6. When the store holds a charge and a poll delivers a snapshot deeply equal to
  it, \<open>processChargeUpdate\<close> returns the store as it was: the step, the log of calls (so
  no tracking event) and the polling state are all unchanged. In particular, once a
  snapshot has been processed in any context, delivering it again from a poll changes
  nothing.
\<close>

theorem processChargeUpdate_same_snapshot:
  "(charge s = Some held \<and> isEqual held c \<longrightarrow> processChargeUpdate c poll s = Returned s)
   \<and> processChargeUpdate c poll (storeOf (processChargeUpdate c ctx s))
       = Returned (storeOf (processChargeUpdate c ctx s))"
  using processChargeUpdate_holds [of c ctx s]
  by (simp add: processChargeUpdate_def sameAsLastPoll_def)

text \<open>
  The waiting store is sent its own charge with the keys of \<^verbatim>\<open>addresses\<close> in the
  other order, which is deeply equal to the held one.
\<close>

theorem processChargeUpdate_same_snapshot_witness:
  "charge waitingStore = Some exampleCharge
   \<and> isEqual exampleCharge (exampleCharge\<lparr>addresses := rev (addresses exampleCharge)\<rparr>)
   \<and> processChargeUpdate (exampleCharge\<lparr>addresses := rev (addresses exampleCharge)\<rparr>) poll
         waitingStore
       = Returned waitingStore"
proof -
  have held: "charge waitingStore = Some exampleCharge"
    by (simp add: example_defs)
  have same: "isEqual exampleCharge (exampleCharge\<lparr>addresses := rev (addresses exampleCharge)\<rparr>)"
    by (simp add: exampleCharge_def isEqual_def objectEqual_def)
  show ?thesis
    using processChargeUpdate_same_snapshot
            [of waitingStore exampleCharge
                "exampleCharge\<lparr>addresses := rev (addresses exampleCharge)\<rparr>"]
          held same
    by simp
qed

text \<open>
  When the poll handle is cleared at the moment a fetch settles, in particular when
  \<open>stopPolling\<close> has just run, \<open>pollResolve\<close> returns the store as it was, for a
  charge and for an error alike.
\<close>

lemma poll_result_discarded_when_handle_cleared:
  "(pollTimeoutId s = None \<longrightarrow> pollResolve r s = s)
   \<and> pollResolve r (stopPolling s) = stopPolling s"
proof -
  have stopped: "pollResolve r s' = s'" if "pollTimeoutId s' = None" for s'
    using that by (cases r) (simp_all add: pollResolve_def pollCatch_def)
  show ?thesis using stopped [of s] stopped [of "stopPolling s"] by simp
qed

text \<open>
  Claim C5 says that when polling is stopped while a fetch is in flight, the result of
  that fetch is discarded when it settles: no update is processed, the error streak is
  unchanged and no next poll is scheduled. The code tests only whether a poll handle is
  set at that moment, and \<open>startPolling\<close>, which stops polling and polls again at once,
  has set a new one by then. The example store is on the network picker with its first
  fetch in flight under handle 1. The user picks bitcoin: polling is stopped, which
  clears timer 1, and started again under handle 3 with a second fetch. The first fetch
  then settles. When it delivers the charge with a payment at 0 of 6, the update is
  processed, the step becomes \<open>pendingPayment\<close>, and a next poll is scheduled under
  handle 5 while the second fetch is still out. When it fails with status 500, the error
  streak goes from 0 to 1 and a next poll is scheduled as well.
\<close>

theorem stale_poll_result_accepted_after_restart:
  "pollTimeoutId (exampleStore exampleCharge networkPicker) = Some 1
   \<and> \<not> handleLive (Some 1) restartedStore
   \<and> pollTimeoutId restartedStore = Some 3
   \<and> step restartedStore = Some awaitingPayment
   \<and> pollErrorStreak restartedStore = 0
   \<and> timers restartedStore = [(3, EmptyCallback, 0), (4, TickCallback, 1000)]
   \<and> step (pollResolve (Inr (withPayment 0 6 (withStatus ''PENDING'' exampleCharge)))
             restartedStore)
       = Some pendingPayment
   \<and> timers (pollResolve (Inr (withPayment 0 6 (withStatus ''PENDING'' exampleCharge)))
               restartedStore)
       = [(3, EmptyCallback, 0), (4, TickCallback, 1000), (5, PollCallback, 2000)]
   \<and> pollErrorStreak (pollResolve (Inl \<lparr>statusCode = Some 500, errorType = None\<rparr>)
                         restartedStore)
       = 1
   \<and> timers (pollResolve (Inl \<lparr>statusCode = Some 500, errorType = None\<rparr>) restartedStore)
       = [(3, EmptyCallback, 0), (4, TickCallback, 1000), (5, PollCallback, 2000)]"
  by (simp add: restartedStore_def example_defs handleLive_def pickNetwork_def
        showAwaitingPayment_def startPolling_def pollBegin_def stopPolling_def
        clearTimeout_def clearInterval_def setTimeout_def setInterval_def track_def emit_def
        Let_def pollResolve_def pollCatch_def scheduleNextPoll_def pollDelay_def
        processChargeUpdate_def sameAsLastPoll_def isEqual_def chargeStatus_def
        isUnpriced_def processPendingPayment_def activePayment_def showPendingPayment_def)

section \<open>Back navigation\<close>

lemma returnHome_stopPolling_exits: "exitsFlow s (Returned (returnHome (stopPolling s)))"
  using stopPolling_not_live [of s]
  by (simp add: exitsFlow_def returnHome_def pollingStopped_def)

lemma shouldSkipNetworkPicker_iff:
  "shouldSkipNetworkPicker ls c =
     (length (addresses c) = 1 \<and> \<not> shouldShowPayWithCoinbase ls c)"
  by (auto simp add: shouldSkipNetworkPicker_def networks_def)

text \<open>
  Claim C3. From \<open>awaitingPayment\<close>, with a held charge, \<open>goBack\<close> returns to
  \<open>networkPicker\<close> (clearing the picked network), unless the picker would be skipped:
  the charge has exactly one network and pay-with-Coinbase is not shown for it, and then
  \<open>goBack\<close> stops polling and calls the parent's \<^verbatim>\<open>returnHome\<close>. From
  \<open>networkPicker\<close>, \<open>successfulPayment\<close>, \<open>failedPayment\<close> and \<open>canceledPayment\<close>
  it stops polling and calls \<^verbatim>\<open>returnHome\<close>. From \<open>pendingPayment\<close>,
  \<open>waitingForConfirmations\<close> and \<open>processingCancellation\<close> it throws an error and
  leaves the store as it was.
\<close>

theorem goBack_by_step:
  "(step s = Some awaitingPayment \<and> charge s = Some c \<longrightarrow>
      (if length (addresses c) = 1 \<and> \<not> shouldShowPayWithCoinbase (IS_LOCAL_STORAGE_AVAILABLE s) c
       then exitsFlow s (goBack s)
       else goBack s = Returned (s\<lparr>pickedNetwork := None, step := Some networkPicker\<rparr>)))
   \<and> (step s = Some networkPicker \<or> step s = Some successfulPayment
        \<or> step s = Some failedPayment \<or> step s = Some canceledPayment \<longrightarrow>
      exitsFlow s (goBack s))
   \<and> (step s = Some pendingPayment \<or> step s = Some waitingForConfirmations
        \<or> step s = Some processingCancellation \<longrightarrow>
      goBack s = Thrown (Error (''can't go back from '' @ stepName (step s))) s)"
proof -
  have awaiting: "step s = Some awaitingPayment \<and> charge s = Some c \<longrightarrow>
      (if length (addresses c) = 1 \<and> \<not> shouldShowPayWithCoinbase (IS_LOCAL_STORAGE_AVAILABLE s) c
       then exitsFlow s (goBack s)
       else goBack s = Returned (s\<lparr>pickedNetwork := None, step := Some networkPicker\<rparr>))"
    using returnHome_stopPolling_exits [of s]
    by (simp add: goBack_def showNetworkPicker_def Let_def shouldSkipNetworkPicker_iff)
  have leave: "step s = Some networkPicker \<or> step s = Some successfulPayment
        \<or> step s = Some failedPayment \<or> step s = Some canceledPayment \<longrightarrow>
      exitsFlow s (goBack s)"
    using returnHome_stopPolling_exits [of s] by (auto simp add: goBack_def)
  have inflight: "step s = Some pendingPayment \<or> step s = Some waitingForConfirmations
        \<or> step s = Some processingCancellation \<longrightarrow>
      goBack s = Thrown (Error (''can't go back from '' @ stepName (step s))) s"
    by (auto simp add: goBack_def cantGoBack_def)
  show ?thesis using awaiting leave inflight by blast
qed

text \<open>
  Going back from the waiting store, whose charge has two networks; from a store waiting
  for a donation on one network; from the success screen; and from \<open>pendingPayment\<close>.
\<close>

theorem goBack_by_step_witness:
  "step waitingStore = Some awaitingPayment \<and> charge waitingStore = Some exampleCharge
   \<and> goBack waitingStore
       = Returned (waitingStore\<lparr>pickedNetwork := None, step := Some networkPicker\<rparr>)
   \<and> exitsFlow
       (exampleStore (exampleDonation\<lparr>addresses := [(''bitcoin'', ''1btc'')]\<rparr>) awaitingPayment)
       (goBack (exampleStore (exampleDonation\<lparr>addresses := [(''bitcoin'', ''1btc'')]\<rparr>)
                  awaitingPayment))
   \<and> exitsFlow (exampleStore exampleCharge successfulPayment)
       (goBack (exampleStore exampleCharge successfulPayment))
   \<and> goBack (exampleStore exampleCharge pendingPayment)
       = Thrown (Error ''can't go back from pendingPayment'')
           (exampleStore exampleCharge pendingPayment)"
proof -
  have two: "step waitingStore = Some awaitingPayment"
    "charge waitingStore = Some exampleCharge"
    "length (addresses exampleCharge) = 2"
    by (simp_all add: example_defs)
  have one: "step (exampleStore (exampleDonation\<lparr>addresses := [(''bitcoin'', ''1btc'')]\<rparr>)
                     awaitingPayment) = Some awaitingPayment"
    "charge (exampleStore (exampleDonation\<lparr>addresses := [(''bitcoin'', ''1btc'')]\<rparr>)
               awaitingPayment)
       = Some (exampleDonation\<lparr>addresses := [(''bitcoin'', ''1btc'')]\<rparr>)"
    "\<not> shouldShowPayWithCoinbase True (exampleDonation\<lparr>addresses := [(''bitcoin'', ''1btc'')]\<rparr>)"
    "IS_LOCAL_STORAGE_AVAILABLE
       (exampleStore (exampleDonation\<lparr>addresses := [(''bitcoin'', ''1btc'')]\<rparr>) awaitingPayment)"
    by (simp_all add: example_defs shouldShowPayWithCoinbase_def)
  have other: "step (exampleStore exampleCharge successfulPayment) = Some successfulPayment"
    "step (exampleStore exampleCharge pendingPayment) = Some pendingPayment"
    by (simp_all add: example_defs)
  show ?thesis
    using goBack_by_step [of waitingStore exampleCharge]
      goBack_by_step
        [of "exampleStore (exampleDonation\<lparr>addresses := [(''bitcoin'', ''1btc'')]\<rparr>) awaitingPayment"
            "exampleDonation\<lparr>addresses := [(''bitcoin'', ''1btc'')]\<rparr>"]
      goBack_by_step [of "exampleStore exampleCharge successfulPayment" exampleCharge]
      goBack_by_step [of "exampleStore exampleCharge pendingPayment" exampleCharge]
      two one other
    by simp
qed

section \<open>Cancellation\<close>

text \<open>
  Claim C4. With a held charge, \<open>cancelCharge\<close> tracks the cancellation, sets the step
  to \<open>processingCancellation\<close> and stops polling, and only then issues the request to
  cancel the charge by its code. When the request fails, with whatever error, the store
  is left as it is at that moment, so the held charge is unchanged, and the call delivers
  the held charge's \<^verbatim>\<open>cancelUrl\<close>. When the request succeeds, the store holds the
  returned charge and the call delivers that charge's \<^verbatim>\<open>cancelUrl\<close>.
\<close>

theorem cancelCharge_swallows_failure:
  "charge s = Some c \<Longrightarrow>
     cancelChargeBegin c s =
       emit (CancelCharge (code c))
         (stopPolling ((track ''checkout:payment-canceled'' s)
                         \<lparr>step := Some processingCancellation\<rparr>))
     \<and> step (cancelChargeBegin c s) = Some processingCancellation
     \<and> pollingStopped s (cancelChargeBegin c s)
     \<and> charge (cancelChargeBegin c s) = Some c
     \<and> calls (cancelChargeBegin c s)
         = calls s @ [Track ''checkout:payment-canceled'', CancelCharge (code c)]
     \<and> cancelChargeResolve (Inl e) s = (s, Inr (cancelUrl c))
     \<and> cancelCharge (Inl e) s = (cancelChargeBegin c s, Inr (cancelUrl c))
     \<and> charge (fst (cancelChargeResolve (Inr c') s)) = Some c'
     \<and> snd (cancelChargeResolve (Inr c') s) = Inr (cancelUrl c')"
proof -
  assume held: "charge s = Some c"
  let ?s1 = "(track ''checkout:payment-canceled'' s)\<lparr>step := Some processingCancellation\<rparr>"
  have stopped: "pollingStopped s (cancelChargeBegin c s)"
    using stopPolling_not_live [of ?s1]
    by (simp add: cancelChargeBegin_def pollingStopped_def)
  have started: "step (cancelChargeBegin c s) = Some processingCancellation"
    "charge (cancelChargeBegin c s) = Some c"
    "calls (cancelChargeBegin c s)
       = calls s @ [Track ''checkout:payment-canceled'', CancelCharge (code c)]"
    using held by (simp_all add: cancelChargeBegin_def)
  have failure: "cancelChargeResolve (Inl e) s' = (s', Inr (cancelUrl c))"
    if "charge s' = Some c" for s'
    using that by (simp add: cancelChargeResolve_def)
  have success: "charge (fst (cancelChargeResolve (Inr c') s)) = Some c'"
    "snd (cancelChargeResolve (Inr c') s) = Inr (cancelUrl c')"
    using processChargeUpdate_cancel_charge [of c' s]
    by (simp_all add: cancelChargeResolve_def Let_def storeOf_def split: Outcome.splits)
  have whole: "cancelCharge (Inl e) s = (cancelChargeBegin c s, Inr (cancelUrl c))"
    using held failure [OF started(2)] by (simp add: cancelCharge_def)
  show ?thesis
    using stopped started failure [OF held] success whole
    by (simp add: cancelChargeBegin_def)
qed

text \<open>
  The user cancels from the waiting store. The backend answers 404; or it answers with
  the charge, now CANCELED.
\<close>

theorem cancelCharge_swallows_failure_witness:
  "charge waitingStore = Some exampleCharge
   \<and> snd (cancelCharge (Inl \<lparr>statusCode = Some 404, errorType = None\<rparr>) waitingStore)
       = Inr (Some ''https://merchant.example/cancel'')
   \<and> charge (fst (cancelCharge (Inl \<lparr>statusCode = Some 404, errorType = None\<rparr>) waitingStore))
       = Some exampleCharge
   \<and> step (fst (cancelCharge (Inl \<lparr>statusCode = Some 404, errorType = None\<rparr>) waitingStore))
       = Some processingCancellation
   \<and> calls (fst (cancelCharge (Inl \<lparr>statusCode = Some 404, errorType = None\<rparr>) waitingStore))
       = [Track ''checkout:payment-canceled'', CancelCharge ''ABC123'']
   \<and> snd (cancelChargeResolve (Inr (withStatus ''CANCELED'' exampleCharge)) waitingStore)
       = Inr (Some ''https://merchant.example/cancel'')"
proof -
  have held: "charge waitingStore = Some exampleCharge"
    by (simp add: example_defs)
  have facts: "cancelUrl exampleCharge = Some ''https://merchant.example/cancel''"
    "cancelUrl (withStatus ''CANCELED'' exampleCharge) = Some ''https://merchant.example/cancel''"
    "code exampleCharge = ''ABC123''" "calls waitingStore = []"
    by (simp_all add: example_defs)
  show ?thesis
    using cancelCharge_swallows_failure
            [OF held, of "\<lparr>statusCode = Some 404, errorType = None\<rparr>"
                        "withStatus ''CANCELED'' exampleCharge"]
          held facts
    by simp
qed

section \<open>The lower send limit\<close>

lemma invalidCurrencies_all_priced:
  "list_all (\<lambda>key. getProperty prices key \<noteq> Missing) keys \<Longrightarrow>
     invalidCurrencies toNumber prices keys acc =
       Some (acc @ map (\<lambda>key. case getProperty prices key of
                                 Own price \<Rightarrow> Some (currency price)
                               | Inherited \<Rightarrow> None
                               | Missing \<Rightarrow> None)
                     (filter (\<lambda>key. case getProperty prices key of
                                       Own price \<Rightarrow> jsLess (toNumber (amount price))
                                                     (limitAmount (currency price))
                                     | Inherited \<Rightarrow> False
                                     | Missing \<Rightarrow> False) keys))"
  by (induction keys arbitrary: acc) (auto split: property.splits)

lemma invalidCurrencies_missing:
  "\<not> list_all (\<lambda>key. getProperty prices key \<noteq> Missing) keys \<Longrightarrow>
     invalidCurrencies toNumber prices keys acc = None"
  by (induction keys arbitrary: acc) (auto split: property.splits)

lemma length_filter_all: "(length (filter P xs) = length xs) = list_all P xs"
proof (induction xs)
  case Nil
  then show ?case by simp
next
  case (Cons x xs)
  have "length (filter P xs) \<noteq> Suc (length xs)"
    using length_filter_le [of P xs] by arith
  with Cons show ?case by simp
qed

text \<open>
  What the function does with a priced charge. When a network of \<^verbatim>\<open>addresses\<close> has
  no price to destructure, it throws and leaves the store as it was. Otherwise it sets
  the flag, to true exactly when every network is priced strictly below the limit of its
  currency.
\<close>

lemma lower_send_limit_flag_priced:
  "charge s = Some c \<Longrightarrow> \<not> isUnpriced c \<Longrightarrow>
     setIsChargeBelowCoinbaseLowerSendLimit toNumber s =
       (if allPriced c
        then Returned (s\<lparr>isChargeBelowCoinbaseLowerSendLimit :=
                           Some (list_all (pricedBelowMinimum toNumber c)
                                   (map fst (addresses c)))\<rparr>)
        else Thrown TypeError s)"
proof (cases "allPriced c")
  case True
  assume held: "charge s = Some c" and priced: "\<not> isUnpriced c"
  from True obtain invalid where
    inv: "invalidCurrencies toNumber (pricing c) (map fst (addresses c)) [] = Some invalid"
    and len: "length invalid =
       length (filter (pricedBelowMinimum toNumber c) (map fst (addresses c)))"
    using invalidCurrencies_all_priced [of "pricing c" "map fst (addresses c)" toNumber "[]"]
    unfolding allPriced_def pricedBelowMinimum_def by simp
  have "(length invalid = length (map fst (addresses c)))
          = list_all (pricedBelowMinimum toNumber c) (map fst (addresses c))"
    unfolding len by (rule length_filter_all)
  then show ?thesis
    using held priced inv True
    by (simp add: setIsChargeBelowCoinbaseLowerSendLimit_def)
next
  case False
  assume held: "charge s = Some c" and priced: "\<not> isUnpriced c"
  have "invalidCurrencies toNumber (pricing c) (map fst (addresses c)) [] = None"
    using False invalidCurrencies_missing [of "pricing c" "map fst (addresses c)" toNumber "[]"]
    unfolding allPriced_def by simp
  then show ?thesis
    using held priced False
    by (simp add: setIsChargeBelowCoinbaseLowerSendLimit_def)
qed

text \<open>
  A charge priced at 0.00005 BTC on its only network is below the limit; the same charge
  with a second network priced at 0.01 ETH is not. A price of -1 in a currency named
  \<^verbatim>\<open>constructor\<close> is not below its limit, which is NaN; a network named
  \<^verbatim>\<open>toString\<close> finds an inherited property for its price and is not below the limit
  either; a network without any price makes the function throw.
\<close>

lemma lower_send_limit_examples:
  "setIsChargeBelowCoinbaseLowerSendLimit exampleNumber
       (exampleStore exampleBitcoinOnly networkPicker)
     = Returned ((exampleStore exampleBitcoinOnly networkPicker)
                   \<lparr>isChargeBelowCoinbaseLowerSendLimit := Some True\<rparr>)"
  "setIsChargeBelowCoinbaseLowerSendLimit exampleNumber
       (exampleStore exampleCharge networkPicker)
     = Returned ((exampleStore exampleCharge networkPicker)
                   \<lparr>isChargeBelowCoinbaseLowerSendLimit := Some False\<rparr>)"
  "setIsChargeBelowCoinbaseLowerSendLimit exampleNumber
       (exampleStore
          (exampleBitcoinOnly
             \<lparr>pricing := [(''bitcoin'', \<lparr>amount = ''-1'', currency = ''constructor''\<rparr>)]\<rparr>)
          networkPicker)
     = Returned ((exampleStore
          (exampleBitcoinOnly
             \<lparr>pricing := [(''bitcoin'', \<lparr>amount = ''-1'', currency = ''constructor''\<rparr>)]\<rparr>)
          networkPicker)
                   \<lparr>isChargeBelowCoinbaseLowerSendLimit := Some False\<rparr>)"
  "setIsChargeBelowCoinbaseLowerSendLimit exampleNumber
       (exampleStore (exampleCharge\<lparr>addresses := [(''toString'', ''1btc'')]\<rparr>) networkPicker)
     = Returned ((exampleStore (exampleCharge\<lparr>addresses := [(''toString'', ''1btc'')]\<rparr>)
                    networkPicker)
                   \<lparr>isChargeBelowCoinbaseLowerSendLimit := Some False\<rparr>)"
  "setIsChargeBelowCoinbaseLowerSendLimit exampleNumber
       (exampleStore (exampleCharge\<lparr>addresses := [(''dogecoin'', ''Daddr'')]\<rparr>) networkPicker)
     = Thrown TypeError
         (exampleStore (exampleCharge\<lparr>addresses := [(''dogecoin'', ''Daddr'')]\<rparr>)
            networkPicker)"
  by (simp_all add: example_defs setIsChargeBelowCoinbaseLowerSendLimit_def isUnpriced_def
        getProperty_def objectPrototypeKeys_def exampleNumber_def limitAmount_def
        COINBASE_CRYPTO_LOWER_SEND_LIMIT_def)

text \<open>
  Claim C7 says that the below-lower-send-limit flag is false for every unpriced charge,
  and that for a priced charge it is true exactly when every network is priced below its
  minimum. The second part is what the function computes when every network has a price
  (\<open>lower_send_limit_flag_priced\<close> gives the exact result). The first part fails on a
  store that is used for one charge after another: for an unpriced charge the function
  returns before it assigns the flag, and nothing else resets it. Here the store computes
  the flag for the charge payable in bitcoin only, which sets it; the held charge is then
  replaced by a donation, as \<^verbatim>\<open>setCharge\<close> does for the next charge, and the flag is
  computed again: for the unpriced charge it is still true.
\<close>

theorem lower_send_limit_flag_stale_for_donation:
  "setIsChargeBelowCoinbaseLowerSendLimit exampleNumber
       (exampleStore exampleBitcoinOnly networkPicker)
     = Returned ((exampleStore exampleBitcoinOnly networkPicker)
                   \<lparr>isChargeBelowCoinbaseLowerSendLimit := Some True\<rparr>)
   \<and> isUnpriced exampleDonation
   \<and> setIsChargeBelowCoinbaseLowerSendLimit exampleNumber
       ((exampleStore exampleBitcoinOnly networkPicker)
          \<lparr>isChargeBelowCoinbaseLowerSendLimit := Some True, charge := Some exampleDonation\<rparr>)
     = Returned ((exampleStore exampleBitcoinOnly networkPicker)
          \<lparr>isChargeBelowCoinbaseLowerSendLimit := Some True, charge := Some exampleDonation\<rparr>)
   \<and> isChargeBelowCoinbaseLowerSendLimit
       ((exampleStore exampleBitcoinOnly networkPicker)
          \<lparr>isChargeBelowCoinbaseLowerSendLimit := Some True, charge := Some exampleDonation\<rparr>)
     = Some True"
  by (simp add: example_defs setIsChargeBelowCoinbaseLowerSendLimit_def isUnpriced_def
        getProperty_def objectPrototypeKeys_def exampleNumber_def limitAmount_def
        COINBASE_CRYPTO_LOWER_SEND_LIMIT_def)

section \<open>The poll delay\<close>

lemma scheduleNextPoll_timer:
  "case pollTimeoutId (scheduleNextPoll s) of
     None \<Rightarrow> False
   | Some h \<Rightarrow> (h, PollCallback, pollDelay (scheduleNextPoll s))
                 \<in> set (timers (scheduleNextPoll s))"
  by (simp add: scheduleNextPoll_def setTimeout_def Let_def pollDelay_def)

lemma pollResolve_schedules:
  "pollTimeoutId s \<noteq> None \<Longrightarrow> \<exists>s'. pollResolve r s = scheduleNextPoll s'"
proof (cases r)
  case (Inl e)
  assume "pollTimeoutId s \<noteq> None"
  then show ?thesis using Inl by (auto simp add: pollResolve_def pollCatch_def)
next
  case (Inr c)
  assume live: "pollTimeoutId s \<noteq> None"
  have "pollResolve r s
          = scheduleNextPoll (storeOf (processChargeUpdate c poll (s\<lparr>pollErrorStreak := 0\<rparr>)))"
    using live Inr
      processChargeUpdate_returns [of c poll "s\<lparr>pollErrorStreak := 0\<rparr>"]
    by (auto simp add: pollResolve_def split: Outcome.splits)
  then show ?thesis by blast
qed

text \<open>
  A fetch that settles while polling is on always leaves a poll scheduled, also when the
  update it delivers has entered a terminal step and stopped polling on the way.
\<close>

lemma pollResolve_keeps_polling:
  "pollTimeoutId s \<noteq> None \<Longrightarrow> pollTimeoutId (pollResolve r s) \<noteq> None"
proof -
  assume "pollTimeoutId s \<noteq> None"
  from pollResolve_schedules [OF this] obtain s' where
    next_poll: "pollResolve r s = scheduleNextPoll s'"
    by blast
  show ?thesis
    unfolding next_poll by (simp add: scheduleNextPoll_def setTimeout_def Let_def)
qed

text \<open>
  Claim C8. The poll delay is 15000 ms when the step is \<open>networkPicker\<close> or
  \<open>maintenance\<close> or the document is hidden; otherwise 10000 ms when the error streak
  exceeds 10; otherwise 5000 ms when it exceeds 5; otherwise 2000 ms. It is evaluated
  afresh in each cycle: when a fetch settles while polling is on, the next poll is
  scheduled after the delay of the store as that cycle leaves it.
\<close>

theorem pollDelay_policy:
  "pollDelay s =
     (if step s = Some networkPicker \<or> step s = Some maintenance \<or> documentHidden s
      then 15000
      else if 10 < pollErrorStreak s then 10000
      else if 5 < pollErrorStreak s then 5000
      else 2000)
   \<and> (pollTimeoutId s \<noteq> None \<longrightarrow>
        (case pollTimeoutId (pollResolve r s) of
           None \<Rightarrow> False
         | Some h \<Rightarrow> (h, PollCallback, pollDelay (pollResolve r s))
                       \<in> set (timers (pollResolve r s))))"
proof -
  have fresh: "case pollTimeoutId (pollResolve r s) of
           None \<Rightarrow> False
         | Some h \<Rightarrow> (h, PollCallback, pollDelay (pollResolve r s))
                       \<in> set (timers (pollResolve r s))"
    if "pollTimeoutId s \<noteq> None"
  proof -
    from pollResolve_schedules [OF that] obtain s' where
      next_poll: "pollResolve r s = scheduleNextPoll s'"
      by blast
    show ?thesis unfolding next_poll by (rule scheduleNextPoll_timer)
  qed
  then show ?thesis by (simp add: pollDelay_def)
qed

text \<open>
  The waiting store with error streaks 0, 6 and 11; the store on the network picker with
  streak 11; and the waiting store after its sixth failed fetch in a row, which schedules
  the next poll in 5000 ms.
\<close>

theorem pollDelay_policy_witness:
  "pollDelay waitingStore = 2000
   \<and> pollDelay (waitingStore\<lparr>pollErrorStreak := 6\<rparr>) = 5000
   \<and> pollDelay (waitingStore\<lparr>pollErrorStreak := 11\<rparr>) = 10000
   \<and> pollDelay ((exampleStore exampleCharge networkPicker)\<lparr>pollErrorStreak := 11\<rparr>) = 15000
   \<and> pollDelay (waitingStore\<lparr>documentHidden := True\<rparr>) = 15000
   \<and> pollTimeoutId (waitingStore\<lparr>pollErrorStreak := 5\<rparr>) \<noteq> None
   \<and> pollTimeoutId (pollResolve (Inl \<lparr>statusCode = Some 500, errorType = None\<rparr>)
                      (waitingStore\<lparr>pollErrorStreak := 5\<rparr>)) = Some 3
   \<and> (3, PollCallback, 5000)
       \<in> set (timers (pollResolve (Inl \<lparr>statusCode = Some 500, errorType = None\<rparr>)
                         (waitingStore\<lparr>pollErrorStreak := 5\<rparr>)))"
proof -
  have live: "pollTimeoutId (waitingStore\<lparr>pollErrorStreak := 5\<rparr>) \<noteq> None"
    by (simp add: example_defs)
  have run: "pollTimeoutId (pollResolve (Inl \<lparr>statusCode = Some 500, errorType = None\<rparr>)
                      (waitingStore\<lparr>pollErrorStreak := 5\<rparr>)) = Some 3"
    by (simp add: example_defs pollResolve_def pollCatch_def scheduleNextPoll_def
          setTimeout_def Let_def)
  have facts: "step waitingStore = Some awaitingPayment" "\<not> documentHidden waitingStore"
    "pollErrorStreak waitingStore = 0"
    "step (exampleStore exampleCharge networkPicker) = Some networkPicker"
    "pollErrorStreak (pollResolve (Inl \<lparr>statusCode = Some 500, errorType = None\<rparr>)
                      (waitingStore\<lparr>pollErrorStreak := 5\<rparr>)) = 6"
    "step (pollResolve (Inl \<lparr>statusCode = Some 500, errorType = None\<rparr>)
                      (waitingStore\<lparr>pollErrorStreak := 5\<rparr>)) = Some awaitingPayment"
    "\<not> documentHidden (pollResolve (Inl \<lparr>statusCode = Some 500, errorType = None\<rparr>)
                      (waitingStore\<lparr>pollErrorStreak := 5\<rparr>))"
    by (simp_all add: example_defs pollResolve_def pollCatch_def scheduleNextPoll_def
          setTimeout_def Let_def)
  have delays: "pollDelay waitingStore = 2000"
    "pollDelay (waitingStore\<lparr>pollErrorStreak := 6\<rparr>) = 5000"
    "pollDelay (waitingStore\<lparr>pollErrorStreak := 11\<rparr>) = 10000"
    "pollDelay ((exampleStore exampleCharge networkPicker)\<lparr>pollErrorStreak := 11\<rparr>) = 15000"
    "pollDelay (waitingStore\<lparr>documentHidden := True\<rparr>) = 15000"
    "pollDelay (pollResolve (Inl \<lparr>statusCode = Some 500, errorType = None\<rparr>)
                  (waitingStore\<lparr>pollErrorStreak := 5\<rparr>)) = 5000"
    using pollDelay_policy [of waitingStore]
      pollDelay_policy [of "waitingStore\<lparr>pollErrorStreak := 6\<rparr>"]
      pollDelay_policy [of "waitingStore\<lparr>pollErrorStreak := 11\<rparr>"]
      pollDelay_policy [of "(exampleStore exampleCharge networkPicker)\<lparr>pollErrorStreak := 11\<rparr>"]
      pollDelay_policy [of "waitingStore\<lparr>documentHidden := True\<rparr>"]
      pollDelay_policy [of "pollResolve (Inl \<lparr>statusCode = Some 500, errorType = None\<rparr>)
                              (waitingStore\<lparr>pollErrorStreak := 5\<rparr>)"]
      facts
    by simp_all
  have scheduled: "(3, PollCallback, 5000)
       \<in> set (timers (pollResolve (Inl \<lparr>statusCode = Some 500, errorType = None\<rparr>)
                         (waitingStore\<lparr>pollErrorStreak := 5\<rparr>)))"
    using pollDelay_policy [of "waitingStore\<lparr>pollErrorStreak := 5\<rparr>"
                           "Inl \<lparr>statusCode = Some 500, errorType = None\<rparr>"]
      live
    unfolding run delays(6) by simp
  show ?thesis using delays(1-5) live run scheduled by simp
qed

section \<open>The transaction hash of a wallet payment\<close>

text \<open>
  Claim C9. When the \<^verbatim>\<open>transactionHash\<close> event carries a truthy transaction id, a
  non-empty string, the wallet status becomes submitted with that id; when what it
  carries is falsy, nothing or the empty string, the status becomes declined with the
  currency of the request, and so is not submitted.
\<close>

theorem onTransactionHash_status:
  "(txId = Some t \<and> t \<noteq> [] \<longrightarrow> web3Status (onTransactionHash cur txId s) = Submitted t)
   \<and> (txId = None \<or> txId = Some [] \<longrightarrow>
        web3Status (onTransactionHash cur txId s) = Declined cur
        \<and> web3Status (onTransactionHash cur txId s) \<noteq> Submitted t')"
  by (auto simp add: onTransactionHash_def)

text \<open>A wallet asked for ETH reports a hash, an empty hash, or no hash at all.\<close>

theorem onTransactionHash_status_witness:
  "web3Status (onTransactionHash ''ETH'' (Some ''0xabc'') waitingStore) = Submitted ''0xabc''
   \<and> web3Status (onTransactionHash ''ETH'' (Some []) waitingStore) = Declined ''ETH''
   \<and> web3Status (onTransactionHash ''ETH'' None waitingStore) = Declined ''ETH''"
  using onTransactionHash_status [of "Some ''0xabc''" "''0xabc''" "''ETH''" waitingStore]
    onTransactionHash_status [of "Some []" "[]" "''ETH''" waitingStore]
    onTransactionHash_status [of None "[]" "''ETH''" waitingStore]
  by simp

end
